theory Spec2Isabelle
  imports Main "HOL-Library.Word"
begin

unbundle bit_operations_syntax

section \<open>Data model of RealSenseImpl.cpp\<close>

text \<open>
  A \<open>float\<close> is only ever moved around by the camera pipeline, so it is kept as its
  32-bit pattern; no arithmetic on it is defined here. A status of the SDK is a signed
  integer: zero is \<open>PXC_STATUS_NO_ERROR\<close>, negative values are errors, positive ones
  warnings.
\<close>

type_synonym float32 = "32 word"
type_synonym FVector = "float32 \<times> float32 \<times> float32"
type_synonym FRotator = "float32 \<times> float32 \<times> float32"
type_synonym FColor = "8 word \<times> 8 word \<times> 8 word"
type_synonym pxcStatus = int

definition PXC_STATUS_NO_ERROR :: pxcStatus where
  "PXC_STATUS_NO_ERROR = 0"

text \<open>
  A raw pointer to an SDK object: \<open>Null\<close> when it was never set, \<open>Live\<close> when it points to
  an object, \<open>Released\<close> once \<open>Release()\<close> was called through it (the program never
  resets such a pointer). A call through anything but a \<open>Live\<close> pointer is a fault.
\<close>

datatype handle = Null | Live | Released

datatype fault = NullDereference | UseAfterRelease

definition deref :: "handle \<Rightarrow> fault option" where
  "deref h = (case h of Null \<Rightarrow> Some NullDereference
                      | Released \<Rightarrow> Some UseAfterRelease
                      | Live \<Rightarrow> None)"

definition Release :: "handle \<Rightarrow> fault + handle" where
  "Release h = (case deref h of Some f \<Rightarrow> Inl f | None \<Rightarrow> Inr Released)"

datatype RealSenseFeature = CAMERA_STREAMING | SCAN_3D | HEAD_TRACKING

text \<open>
  Modelled from the spec: the enumerators of \<open>RealSenseFeature\<close> are declared in a header
  that is not under src/. The spec calls the feature set "bit-flag-style", and the code
  combines the enumerators with \<open>|=\<close> and tests them with \<open>&\<close>, so each is one bit.
\<close>

fun feature_bit :: "RealSenseFeature \<Rightarrow> 32 word" where
  "feature_bit CAMERA_STREAMING = 1"
| "feature_bit SCAN_3D = 2"
| "feature_bit HEAD_TRACKING = 4"

datatype EScan3DFileFormat = OBJ | PLY | STL

text \<open>
  \<open>FStreamResolution\<close>: the entries of the resolution tables (not under src/) are small
  positive numbers, so width and height are naturals and the products below do not wrap.
\<close>

record FStreamResolution =
  width :: nat
  height :: nat
  fps :: float32

definition zero_resolution :: FStreamResolution where
  "zero_resolution = \<lparr>width = 0, height = 0, fps = 0\<rparr>"

text \<open>
  \<open>RealSenseDataFrame\<close>. An image buffer is a \<open>std::vector\<close>; the list holds its
  elements, so the length of the list is the vector's \<open>size()\<close>.
\<close>

record RealSenseDataFrame =
  number :: "64 word"
  colorImage :: "8 word list"
  depthImage :: "16 word list"
  scanImage :: "8 word list"
  headCount :: int
  headPosition :: FVector
  headRotation :: FRotator

definition new_RealSenseDataFrame :: RealSenseDataFrame where
  "new_RealSenseDataFrame =
     \<lparr>number = 0, colorImage = [], depthImage = [], scanImage = [], headCount = 0,
      headPosition = (0, 0, 0), headRotation = (0, 0, 0)\<rparr>"

text \<open>
  The members of \<open>RealSenseImpl\<close> that the functions below read or write. The three frames
  are owned through \<open>unique_ptr\<close>s, so no two of them alias and a swap of the pointers is
  a swap of the values. \<open>currentFrame\<close> is the local counter of the camera thread.
  \<open>scanConfigStartScan\<close> and \<open>reconstructCalls\<close> are the part of the 3D scan module this
  code drives: the \<open>startScan\<close> field of its configuration and the \<open>Reconstruct\<close> calls
  it has received.
\<close>

record RealSenseImpl =
  p3DScan :: handle
  pFace :: handle
  faceConfig :: handle
  faceData :: handle
  RealSenseFeatureSet :: "32 word"
  colorStreamingEnabled :: bool
  depthStreamingEnabled :: bool
  scan3DEnabled :: bool
  faceEnabled :: bool
  cameraThreadRunning :: bool
  fgFrame :: RealSenseDataFrame
  midFrame :: RealSenseDataFrame
  bgFrame :: RealSenseDataFrame
  colorResolution :: FStreamResolution
  depthResolution :: FStreamResolution
  scan3DResolution :: FStreamResolution
  scan3DFileFormat :: EScan3DFileFormat
  scan3DFilename :: string
  scanStarted :: bool
  scanStopped :: bool
  reconstructEnabled :: bool
  scanCompleted :: bool
  scan3DImageSizeChanged :: bool
  status :: pxcStatus
  currentFrame :: "64 word"
  scanConfigStartScan :: bool
  reconstructCalls :: "(EScan3DFileFormat \<times> string) list"

text \<open>
  The constructor, when the session and the sense manager were created. The face
  configuration and face output pointers are not assigned by the constructor.
\<close>

definition RealSenseImpl_new :: RealSenseImpl where
  "RealSenseImpl_new =
     \<lparr>p3DScan = Null, pFace = Null, faceConfig = Null, faceData = Null,
      RealSenseFeatureSet = 0,
      colorStreamingEnabled = False, depthStreamingEnabled = False,
      scan3DEnabled = False, faceEnabled = False,
      cameraThreadRunning = False,
      fgFrame = new_RealSenseDataFrame, midFrame = new_RealSenseDataFrame,
      bgFrame = new_RealSenseDataFrame,
      colorResolution = zero_resolution, depthResolution = zero_resolution,
      scan3DResolution = zero_resolution,
      scan3DFileFormat = OBJ, scan3DFilename = [],
      scanStarted = False, scanStopped = False, reconstructEnabled = False,
      scanCompleted = False, scan3DImageSizeChanged = False,
      status = 0, currentFrame = 0,
      scanConfigStartScan = False, reconstructCalls = []\<rparr>"

section \<open>Image buffers\<close>

text \<open>\<open>std::vector::resize\<close>: keeps the first \<open>n\<close> elements, fills up with zeros.\<close>

definition vec_resize :: "nat \<Rightarrow> ('a::zero) list \<Rightarrow> 'a list" where
  "vec_resize n xs = take n xs @ replicate (n - length xs) 0"

text \<open>\<open>std::vector::clear\<close>: the size becomes zero.\<close>

definition vec_clear :: "'a list \<Rightarrow> 'a list" where
  "vec_clear xs = []"

text \<open>
  A write of \<open>src\<close> through the raw pointer \<open>data()\<close> of a vector, or through the
  addresses of a row of variables: the elements that exist are overwritten from the
  front, the size stays what it was.
\<close>

definition raw_write :: "'a list \<Rightarrow> 'a list \<Rightarrow> 'a list" where
  "raw_write src buf = take (length buf) src @ drop (length src) buf"

text \<open>
  Modelled from the spec: \<open>CopyColorImageToBuffer\<close> and \<open>CopyDepthImageToBuffer\<close> are
  defined in a source file that is not under src/. They receive the raw pointer and the
  width and height, and copy the payload "converting pixel layout as needed": four bytes
  for each color pixel, one 16-bit value for each depth pixel.
\<close>

definition CopyColorImageToBuffer :: "8 word list \<Rightarrow> 8 word list \<Rightarrow> nat \<Rightarrow> nat \<Rightarrow> 8 word list" where
  "CopyColorImageToBuffer img buf w h = raw_write (take (w * h * 4) img) buf"

definition CopyDepthImageToBuffer :: "16 word list \<Rightarrow> 16 word list \<Rightarrow> nat \<Rightarrow> nat \<Rightarrow> 16 word list" where
  "CopyDepthImageToBuffer img buf w h = raw_write (take (w * h) img) buf"

section \<open>The camera thread\<close>

text \<open>
  What the SDK hands to one pass of the loop: the status of \<open>AcquireFrame\<close>, the color
  and depth images of the sample (\<open>None\<close> is \<open>nullptr\<close>), the preview image of the scan
  module with its width and height, the status of \<open>Reconstruct\<close>, the number of detected
  faces and the pose of the first one.
\<close>

record frame_input =
  acquireStatus :: pxcStatus
  sampleColor :: "8 word list option"
  sampleDepth :: "16 word list option"
  previewImage :: "(nat \<times> nat \<times> 8 word list) option"
  reconstructStatus :: pxcStatus
  detectedFaces :: int
  poseData :: "(FVector \<times> FRotator) option"

definition UpdateScan3DImageSize :: "nat \<Rightarrow> nat \<Rightarrow> RealSenseImpl \<Rightarrow> RealSenseImpl" where
  "UpdateScan3DImageSize w h s =
     (if width (scan3DResolution s) = w \<and> height (scan3DResolution s) = h then s
      else
        let res = (scan3DResolution s)\<lparr>width := w, height := h\<rparr>;
            n = w * h * 4
        in s\<lparr>scan3DResolution := res,
              bgFrame := (bgFrame s)\<lparr>scanImage := vec_resize n (scanImage (bgFrame s))\<rparr>,
              midFrame := (midFrame s)\<lparr>scanImage := vec_resize n (scanImage (midFrame s))\<rparr>,
              fgFrame := (fgFrame s)\<lparr>scanImage := vec_resize n (scanImage (fgFrame s))\<rparr>,
              scan3DImageSizeChanged := True\<rparr>)"

text \<open>Lines 156-159: the color stage.\<close>

definition stage_color :: "frame_input \<Rightarrow> RealSenseImpl \<Rightarrow> RealSenseImpl" where
  "stage_color inp s =
     (if colorStreamingEnabled s then
        (case sampleColor inp of
           None \<Rightarrow> s
         | Some img \<Rightarrow>
             let cleared = vec_clear (colorImage (bgFrame s))
             in s\<lparr>bgFrame := (bgFrame s)\<lparr>colorImage :=
                    CopyColorImageToBuffer img cleared
                      (width (colorResolution s)) (height (colorResolution s))\<rparr>\<rparr>)
      else s)"

text \<open>Lines 161-162: the depth stage.\<close>

definition stage_depth :: "frame_input \<Rightarrow> RealSenseImpl \<Rightarrow> RealSenseImpl" where
  "stage_depth inp s =
     (if depthStreamingEnabled s then
        (case sampleDepth inp of
           None \<Rightarrow> s
         | Some img \<Rightarrow>
             s\<lparr>bgFrame := (bgFrame s)\<lparr>depthImage :=
                  CopyDepthImageToBuffer img (depthImage (bgFrame s))
                    (width (depthResolution s)) (height (depthResolution s))\<rparr>\<rparr>)
      else s)"

text \<open>Lines 164-191: the scan stage; every branch goes through \<open>p3DScan\<close>.\<close>

definition scan_start :: "RealSenseImpl \<Rightarrow> RealSenseImpl" where
  "scan_start s =
     (if scanStarted s then s\<lparr>scanConfigStartScan := True, scanStarted := False\<rparr> else s)"

definition scan_stop :: "RealSenseImpl \<Rightarrow> RealSenseImpl" where
  "scan_stop s =
     (if scanStopped s then s\<lparr>scanConfigStartScan := False, scanStopped := False\<rparr> else s)"

definition scan_preview :: "frame_input \<Rightarrow> RealSenseImpl \<Rightarrow> RealSenseImpl" where
  "scan_preview inp s =
     (case previewImage inp of
        None \<Rightarrow> s
      | Some (w, h, img) \<Rightarrow>
          let s1 = UpdateScan3DImageSize w h s
          in s1\<lparr>bgFrame := (bgFrame s1)\<lparr>scanImage :=
                  CopyColorImageToBuffer img (scanImage (bgFrame s1))
                    (width (scan3DResolution s1)) (height (scan3DResolution s1))\<rparr>\<rparr>)"

definition scan_reconstruct :: "frame_input \<Rightarrow> RealSenseImpl \<Rightarrow> RealSenseImpl" where
  "scan_reconstruct inp s =
     (if reconstructEnabled s then
        s\<lparr>status := reconstructStatus inp,
          reconstructCalls := reconstructCalls s @ [(scan3DFileFormat s, scan3DFilename s)],
          reconstructEnabled := False,
          scanCompleted := True\<rparr>
      else s)"

definition stage_scan :: "frame_input \<Rightarrow> RealSenseImpl \<Rightarrow> fault + RealSenseImpl" where
  "stage_scan inp s =
     (if scan3DEnabled s then
        (case deref (p3DScan s) of
           Some f \<Rightarrow> Inl f
         | None \<Rightarrow> Inr (scan_reconstruct inp (scan_preview inp (scan_stop (scan_start s)))))
      else Inr s)"

text \<open>Lines 193-212: the face stage.\<close>

definition stage_face :: "frame_input \<Rightarrow> RealSenseImpl \<Rightarrow> fault + RealSenseImpl" where
  "stage_face inp s =
     (if faceEnabled s \<and> pFace s \<noteq> Null then
        (case deref (faceData s) of
           Some f \<Rightarrow> Inl f
         | None \<Rightarrow>
             let bg = (bgFrame s)\<lparr>headCount := detectedFaces inp\<rparr>;
                 bg' = (if 0 < detectedFaces inp then
                          (case poseData inp of
                             None \<Rightarrow> bg
                           | Some (p, r) \<Rightarrow> bg\<lparr>headPosition := p, headRotation := r\<rparr>)
                        else bg)
             in Inr (s\<lparr>bgFrame := bg'\<rparr>))
      else Inr s)"

text \<open>Line 139: \<open>bgFrame->number = ++currentFrame\<close>, on 64 bits.\<close>

definition stamp_frame :: "RealSenseImpl \<Rightarrow> RealSenseImpl" where
  "stamp_frame s =
     (let n = currentFrame s + 1
      in s\<lparr>currentFrame := n, bgFrame := (bgFrame s)\<lparr>number := n\<rparr>\<rparr>)"

text \<open>Lines 139-214: what the loop does with a frame it has acquired.\<close>

definition CameraThread_process :: "frame_input \<Rightarrow> RealSenseImpl \<Rightarrow> fault + RealSenseImpl" where
  "CameraThread_process inp s =
     (case stage_scan inp (stage_depth inp (stage_color inp (stamp_frame s))) of
        Inl f \<Rightarrow> Inl f
      | Inr s1 \<Rightarrow> stage_face inp s1)"

text \<open>Lines 217-218: the swap of background and mid frame under the mutex.\<close>

definition PublishBackground :: "RealSenseImpl \<Rightarrow> RealSenseImpl" where
  "PublishBackground s = s\<lparr>bgFrame := midFrame s, midFrame := bgFrame s\<rparr>"

text \<open>Lines 135-214: \<open>AcquireFrame\<close>, then either \<open>continue\<close> or the stages.\<close>

definition CameraThread_fill :: "frame_input \<Rightarrow> RealSenseImpl \<Rightarrow> fault + RealSenseImpl" where
  "CameraThread_fill inp s =
     (let s0 = s\<lparr>status := acquireStatus inp\<rparr>
      in if acquireStatus inp \<noteq> PXC_STATUS_NO_ERROR then Inr s0
         else CameraThread_process inp s0)"

text \<open>One pass of the body of the \<open>while\<close> loop, lines 134-218.\<close>

definition CameraThread_iteration :: "frame_input \<Rightarrow> RealSenseImpl \<Rightarrow> fault + RealSenseImpl" where
  "CameraThread_iteration inp s =
     (let s0 = s\<lparr>status := acquireStatus inp\<rparr>
      in if acquireStatus inp \<noteq> PXC_STATUS_NO_ERROR then Inr s0
         else (case CameraThread_process inp s0 of
                 Inl f \<Rightarrow> Inl f
               | Inr s1 \<Rightarrow> Inr (PublishBackground s1)))"

text \<open>Lines 119-131: the start of the thread, with the status of \<open>Init\<close>.\<close>

definition CameraThread_start :: "pxcStatus \<Rightarrow> RealSenseImpl \<Rightarrow> fault + RealSenseImpl" where
  "CameraThread_start initStatus s =
     (let s0 = s\<lparr>currentFrame := 0,
                 fgFrame := (fgFrame s)\<lparr>number := 0\<rparr>,
                 midFrame := (midFrame s)\<lparr>number := 0\<rparr>,
                 bgFrame := (bgFrame s)\<lparr>number := 0\<rparr>,
                 status := initStatus\<rparr>
      in if initStatus < PXC_STATUS_NO_ERROR then Inr s0
         else if faceEnabled s0 then
           (case deref (pFace s0) of
              Some f \<Rightarrow> Inl f
            | None \<Rightarrow> Inr (s0\<lparr>faceData := Live\<rparr>))
         else Inr s0)"

section \<open>The calls of the main thread\<close>

text \<open>Lines 223-229.\<close>

definition StartCamera :: "RealSenseImpl \<Rightarrow> RealSenseImpl" where
  "StartCamera s = (if \<not> cameraThreadRunning s then s\<lparr>cameraThreadRunning := True\<rparr> else s)"

text \<open>Lines 247-252.\<close>

definition SwapFrames :: "RealSenseImpl \<Rightarrow> RealSenseImpl" where
  "SwapFrames s =
     (if number (fgFrame s) < number (midFrame s)
      then s\<lparr>fgFrame := midFrame s, midFrame := fgFrame s\<rparr>
      else s)"

text \<open>
  Lines 255-281. The sense manager is taken to deliver the modules it is asked for, so
  \<open>Query3DScan\<close>, \<open>QueryFace\<close> and \<open>CreateActiveConfiguration\<close> return live objects.
\<close>

definition EnableRealSenseFeature :: "RealSenseFeature \<Rightarrow> RealSenseImpl \<Rightarrow> RealSenseImpl" where
  "EnableRealSenseFeature feature s =
     (let s1 = s\<lparr>RealSenseFeatureSet := RealSenseFeatureSet s OR feature_bit feature\<rparr>;
          s2 = (if feature = CAMERA_STREAMING
                then s1\<lparr>colorStreamingEnabled := True, depthStreamingEnabled := True\<rparr>
                else s1);
          s3 = (if feature = SCAN_3D
                then s2\<lparr>p3DScan := Live, scan3DEnabled := True\<rparr>
                else s2)
      in if feature = HEAD_TRACKING
         then s3\<lparr>pFace := Live, faceConfig := Live, faceEnabled := True\<rparr>
         else s3)"

text \<open>Lines 285-293.\<close>

definition EnableRealSenseFeatures :: "32 word \<Rightarrow> RealSenseImpl \<Rightarrow> RealSenseImpl" where
  "EnableRealSenseFeatures featureSet s =
     (let s1 = (if featureSet AND feature_bit CAMERA_STREAMING \<noteq> 0
                then EnableRealSenseFeature CAMERA_STREAMING s else s);
          s2 = (if featureSet AND feature_bit SCAN_3D \<noteq> 0
                then EnableRealSenseFeature SCAN_3D s1 else s1)
      in if featureSet AND feature_bit HEAD_TRACKING \<noteq> 0
         then EnableRealSenseFeature HEAD_TRACKING s2 else s2)"

text \<open>Lines 295-309.\<close>

definition DisableRealSenseFeature :: "RealSenseFeature \<Rightarrow> RealSenseImpl \<Rightarrow> fault + RealSenseImpl" where
  "DisableRealSenseFeature feature s =
     (let s1 = (if feature = CAMERA_STREAMING
                then s\<lparr>colorStreamingEnabled := False, depthStreamingEnabled := False\<rparr>
                else s);
          s2 = (if feature = SCAN_3D then s1\<lparr>scan3DEnabled := False\<rparr> else s1)
      in if feature = HEAD_TRACKING then
           (case Release (faceConfig s2) of
              Inl f \<Rightarrow> Inl f
            | Inr c \<Rightarrow>
                (case Release (faceData s2) of
                   Inl f \<Rightarrow> Inl f
                 | Inr d \<Rightarrow> Inr (s2\<lparr>faceConfig := c, faceData := d, faceEnabled := False\<rparr>)))
         else Inr s2)"

text \<open>Lines 311-319.\<close>

definition DisableRealSenseFeatures :: "32 word \<Rightarrow> RealSenseImpl \<Rightarrow> fault + RealSenseImpl" where
  "DisableRealSenseFeatures featureSet s =
     (case (if featureSet AND feature_bit CAMERA_STREAMING \<noteq> 0
            then DisableRealSenseFeature CAMERA_STREAMING s else Inr s) of
        Inl f \<Rightarrow> Inl f
      | Inr s1 \<Rightarrow>
          (case (if featureSet AND feature_bit SCAN_3D \<noteq> 0
                 then DisableRealSenseFeature SCAN_3D s1 else Inr s1) of
             Inl f \<Rightarrow> Inl f
           | Inr s2 \<Rightarrow>
               (if featureSet AND feature_bit HEAD_TRACKING \<noteq> 0
                then DisableRealSenseFeature HEAD_TRACKING s2 else Inr s2)))"

text \<open>
  Lines 234-244. The join leaves no trace in the members; \<open>Close\<close> acts on the sense
  manager only.
\<close>

definition StopCamera :: "RealSenseImpl \<Rightarrow> fault + RealSenseImpl" where
  "StopCamera s =
     (let s1 = (if cameraThreadRunning s then s\<lparr>cameraThreadRunning := False\<rparr> else s)
      in case DisableRealSenseFeatures (RealSenseFeatureSet s1) s1 of
           Inl f \<Rightarrow> Inl f
         | Inr s2 \<Rightarrow> Inr (EnableRealSenseFeatures (RealSenseFeatureSet s2) s2))"

text \<open>
  Lines 342-353 and 357-368. \<open>res\<close> is the entry of the resolution table for the
  requested resolution (the tables are not under src/), \<open>st\<close> the status that
  \<open>EnableStream\<close> returns.
\<close>

definition SetColorCameraResolution :: "FStreamResolution \<Rightarrow> pxcStatus \<Rightarrow> RealSenseImpl \<Rightarrow> RealSenseImpl" where
  "SetColorCameraResolution res st s =
     (let s1 = s\<lparr>colorResolution := res, status := st\<rparr>;
          n = width res * height res * 4
      in if st = PXC_STATUS_NO_ERROR then
           s1\<lparr>bgFrame := (bgFrame s1)\<lparr>colorImage := vec_resize n (colorImage (bgFrame s1))\<rparr>,
              midFrame := (midFrame s1)\<lparr>colorImage := vec_resize n (colorImage (midFrame s1))\<rparr>,
              fgFrame := (fgFrame s1)\<lparr>colorImage := vec_resize n (colorImage (fgFrame s1))\<rparr>\<rparr>
         else s1)"

definition SetDepthCameraResolution :: "FStreamResolution \<Rightarrow> pxcStatus \<Rightarrow> RealSenseImpl \<Rightarrow> RealSenseImpl" where
  "SetDepthCameraResolution res st s =
     (let s1 = s\<lparr>depthResolution := res, status := st\<rparr>;
          n = width res * height res
      in if st = PXC_STATUS_NO_ERROR then
           s1\<lparr>bgFrame := (bgFrame s1)\<lparr>depthImage := vec_resize n (depthImage (bgFrame s1))\<rparr>,
              midFrame := (midFrame s1)\<lparr>depthImage := vec_resize n (depthImage (midFrame s1))\<rparr>,
              fgFrame := (fgFrame s1)\<lparr>depthImage := vec_resize n (depthImage (fgFrame s1))\<rparr>\<rparr>
         else s1)"

text \<open>
  Lines 406-425; the mode and the options of the configuration stay inside the scan
  module. The result is the new state and the returned flag.
\<close>

definition ConfigureScanning :: "pxcStatus \<Rightarrow> RealSenseImpl \<Rightarrow> fault + (RealSenseImpl \<times> bool)" where
  "ConfigureScanning st s =
     (let s1 = s\<lparr>scan3DEnabled := True\<rparr>
      in case deref (p3DScan s1) of
           Some f \<Rightarrow> Inl f
         | None \<Rightarrow> Inr (s1\<lparr>scanConfigStartScan := False, status := st\<rparr>,
                        st = PXC_STATUS_NO_ERROR))"

text \<open>Lines 429-439.\<close>

definition SetScanningVolume :: "pxcStatus \<Rightarrow> RealSenseImpl \<Rightarrow> fault + RealSenseImpl" where
  "SetScanningVolume st s =
     (case deref (p3DScan s) of Some f \<Rightarrow> Inl f | None \<Rightarrow> Inr (s\<lparr>status := st\<rparr>))"

text \<open>Lines 444-448.\<close>

definition StartScanning :: "RealSenseImpl \<Rightarrow> RealSenseImpl" where
  "StartScanning s = s\<lparr>scanStarted := True, scanCompleted := False\<rparr>"

text \<open>Lines 453-456.\<close>

definition StopScanning :: "RealSenseImpl \<Rightarrow> RealSenseImpl" where
  "StopScanning s = s\<lparr>scanStopped := True\<rparr>"

text \<open>Lines 460-465: the configuration is written back as it was read.\<close>

definition ResetScanning :: "RealSenseImpl \<Rightarrow> fault + RealSenseImpl" where
  "ResetScanning s =
     (let s1 = s\<lparr>scan3DEnabled := False\<rparr>
      in case deref (p3DScan s1) of
           Some f \<Rightarrow> Inl f
         | None \<Rightarrow> Inr (s1\<lparr>scan3DEnabled := True\<rparr>))"

text \<open>Lines 470-475.\<close>

definition SaveScan :: "EScan3DFileFormat \<Rightarrow> string \<Rightarrow> RealSenseImpl \<Rightarrow> RealSenseImpl" where
  "SaveScan saveFileFormat filename s =
     s\<lparr>scan3DFileFormat := saveFileFormat, scan3DFilename := filename,
       reconstructEnabled := True\<rparr>"

section \<open>Schedules of the two threads\<close>

text \<open>
  The camera thread and the main thread meet at the frames and the flags. A schedule is a
  list of events: the start of the camera thread, a pass of its loop up to the release
  of the frame, its swap of background and mid frame, and the calls of the main thread.
  The two swaps exclude each other through the mutex. Every run of the program is such a
  list; lists that no run produces are not excluded.
\<close>

datatype event =
    ThreadStart pxcStatus
  | ThreadFill frame_input
  | ThreadPublish
  | CallStartCamera
  | CallStopCamera
  | CallSwapFrames
  | CallEnable RealSenseFeature
  | CallDisable RealSenseFeature
  | CallEnableFeatures "32 word"
  | CallDisableFeatures "32 word"
  | CallSetColor FStreamResolution pxcStatus
  | CallSetDepth FStreamResolution pxcStatus
  | CallConfigureScanning pxcStatus
  | CallSetScanningVolume pxcStatus
  | CallStartScanning
  | CallStopScanning
  | CallResetScanning
  | CallSaveScan EScan3DFileFormat string

fun exec :: "event \<Rightarrow> RealSenseImpl \<Rightarrow> fault + RealSenseImpl" where
  "exec (ThreadStart st) s = CameraThread_start st s"
| "exec (ThreadFill inp) s =
     (if cameraThreadRunning s then CameraThread_fill inp s else Inr s)"
| "exec ThreadPublish s = Inr (PublishBackground s)"
| "exec CallStartCamera s = Inr (StartCamera s)"
| "exec CallStopCamera s = StopCamera s"
| "exec CallSwapFrames s = Inr (SwapFrames s)"
| "exec (CallEnable f) s = Inr (EnableRealSenseFeature f s)"
| "exec (CallDisable f) s = DisableRealSenseFeature f s"
| "exec (CallEnableFeatures fs) s = Inr (EnableRealSenseFeatures fs s)"
| "exec (CallDisableFeatures fs) s = DisableRealSenseFeatures fs s"
| "exec (CallSetColor res st) s = Inr (SetColorCameraResolution res st s)"
| "exec (CallSetDepth res st) s = Inr (SetDepthCameraResolution res st s)"
| "exec (CallConfigureScanning st) s =
     (case ConfigureScanning st s of Inl f \<Rightarrow> Inl f | Inr (s', ok) \<Rightarrow> Inr s')"
| "exec (CallSetScanningVolume st) s = SetScanningVolume st s"
| "exec CallStartScanning s = Inr (StartScanning s)"
| "exec CallStopScanning s = Inr (StopScanning s)"
| "exec CallResetScanning s = ResetScanning s"
| "exec (CallSaveScan fmt name) s = Inr (SaveScan fmt name s)"

fun run :: "event list \<Rightarrow> RealSenseImpl \<Rightarrow> fault + RealSenseImpl" where
  "run [] s = Inr s"
| "run (e # es) s = (case exec e s of Inl f \<Rightarrow> Inl f | Inr s' \<Rightarrow> run es s')"

text \<open>
  The sequence numbers of the foreground frame that the main thread can read along a
  schedule: one after each event, up to a fault.
\<close>

fun fg_numbers :: "event list \<Rightarrow> RealSenseImpl \<Rightarrow> 64 word list" where
  "fg_numbers [] s = []"
| "fg_numbers (e # es) s =
     (case exec e s of
        Inl f \<Rightarrow> []
      | Inr s' \<Rightarrow> number (fgFrame s') # fg_numbers es s')"

text \<open>
  An event processes a pending reconstruct request when it is a pass of the loop that
  acquires a frame while the scan stage is active and \<open>reconstructEnabled\<close> is set.
\<close>

fun processes_reconstruct :: "event \<Rightarrow> RealSenseImpl \<Rightarrow> bool" where
  "processes_reconstruct (ThreadFill inp) s =
     (cameraThreadRunning s \<and> acquireStatus inp = PXC_STATUS_NO_ERROR \<and>
      scan3DEnabled s \<and> reconstructEnabled s)"
| "processes_reconstruct e s = False"

fun reconstruct_processed :: "event list \<Rightarrow> RealSenseImpl \<Rightarrow> bool" where
  "reconstruct_processed [] s = False"
| "reconstruct_processed (e # es) s =
     (processes_reconstruct e s \<or>
      (case exec e s of Inl f \<Rightarrow> False | Inr s' \<Rightarrow> reconstruct_processed es s'))"

fun is_ThreadStart :: "event \<Rightarrow> bool" where
  "is_ThreadStart (ThreadStart st) = True"
| "is_ThreadStart e = False"

section \<open>Loading a scan\<close>

text \<open>
  \<open>LoadScan\<close> computes on \<open>float\<close>s and reads them with \<open>sscanf_s\<close>. Both are outside
  this development and enter as parameters: what \<open>sscanf_s\<close> converts from a string (the
  values in the order of the format, at most six, fewer when the text stops matching),
  the vertex and the color built from the numbers of a line, the arithmetic of
  \<open>FVector\<close>, and the indeterminate values of the variables declared without an
  initialiser.
\<close>

record scan_arith =
  sscanf_floats :: "string \<Rightarrow> float32 list"
  sscanf_ints :: "string \<Rightarrow> 32 word list"
  make_vertex :: "float32 \<Rightarrow> float32 \<Rightarrow> float32 \<Rightarrow> FVector"
  make_color :: "float32 \<Rightarrow> float32 \<Rightarrow> float32 \<Rightarrow> FColor"
  vec_add :: "FVector \<Rightarrow> FVector \<Rightarrow> FVector"
  vec_div :: "FVector \<Rightarrow> 32 word \<Rightarrow> FVector"
  vec_sub :: "FVector \<Rightarrow> FVector \<Rightarrow> FVector"
  uninit_float :: "nat \<Rightarrow> float32"
  uninit_int :: "nat \<Rightarrow> 32 word"

text \<open>
  The variables of the loop: \<open>x, y, z, r, g, b\<close> in \<open>scanned_floats\<close> and
  \<open>v1, n1, v2, n2, v3, n3\<close> (the order of the format) in \<open>scanned_ints\<close>, and the three
  output arrays.
\<close>

record parse_state =
  scanned_floats :: "float32 list"
  scanned_ints :: "32 word list"
  Vertices :: "FVector list"
  Triangles :: "32 word list"
  Colors :: "FColor list"

text \<open>\<open>std::string::operator[]\<close>: the position \<open>size()\<close> holds the null character.\<close>

definition char_at :: "string \<Rightarrow> nat \<Rightarrow> char" where
  "char_at line i = (if i < length line then line ! i else CHR 0x00)"

text \<open>Lines 499-511: one line of the file.\<close>

definition parse_line :: "scan_arith \<Rightarrow> string \<Rightarrow> parse_state \<Rightarrow> parse_state" where
  "parse_line ar line p =
     (if char_at line 0 = CHR ''v'' then
        (if char_at line 1 = CHR '' '' then
           let fl = raw_write (take 6 (sscanf_floats ar (drop 2 line))) (scanned_floats p)
           in p\<lparr>scanned_floats := fl,
                Vertices := Vertices p @ [make_vertex ar (fl ! 0) (fl ! 1) (fl ! 2)],
                Colors := Colors p @ [make_color ar (fl ! 3) (fl ! 4) (fl ! 5)]\<rparr>
         else p)
      else if char_at line 0 = CHR ''f'' then
        let iv = raw_write (take 6 (sscanf_ints ar (drop 1 line))) (scanned_ints p)
        in p\<lparr>scanned_ints := iv,
             Triangles := Triangles p @ [iv ! 0 - 1, iv ! 2 - 1, iv ! 4 - 1]\<rparr>
      else p)"

text \<open>
  Lines 482-522. \<open>files\<close> gives the lines of every file that can be opened. The function
  returns nothing in C++; the result here is the final content of the three arrays
  passed by reference.
\<close>

definition LoadScan ::
  "scan_arith \<Rightarrow> (string \<rightharpoonup> string list) \<Rightarrow> string \<Rightarrow>
   FVector list \<times> 32 word list \<times> FColor list \<Rightarrow> FVector list \<times> 32 word list \<times> FColor list" where
  "LoadScan ar files filename out =
     (case out of (Vertices0, Triangles0, Colors0) \<Rightarrow>
        let p0 = \<lparr>scanned_floats = map (uninit_float ar) [0..<5] @ [0],
                  scanned_ints = map (uninit_int ar) [0..<5] @ [0],
                  Vertices = vec_clear Vertices0,
                  Triangles = vec_clear Triangles0,
                  Colors = vec_clear Colors0\<rparr>
        in case files filename of
             None \<Rightarrow> (Vertices p0, Triangles p0, Colors p0)
           | Some file_lines \<Rightarrow>
               let p = foldl (\<lambda>q line. parse_line ar line q) p0 file_lines;
                   MeshCenter = vec_div ar (foldl (vec_add ar) (0, 0, 0) (Vertices p))
                                  (of_nat (length (Vertices p)))
               in (map (\<lambda>Vert. vec_sub ar Vert MeshCenter) (Vertices p),
                   Triangles p, Colors p))"

section \<open>Features\<close>

text \<open>
  A feature is active when the flags that the loop tests for it are set: both streaming
  flags for \<open>CAMERA_STREAMING\<close>, \<open>scan3DEnabled\<close> for \<open>SCAN_3D\<close>, \<open>faceEnabled\<close> for
  \<open>HEAD_TRACKING\<close>.
\<close>

definition feature_active :: "RealSenseFeature \<Rightarrow> RealSenseImpl \<Rightarrow> bool" where
  "feature_active f s =
     (case f of
        CAMERA_STREAMING \<Rightarrow> colorStreamingEnabled s \<and> depthStreamingEnabled s
      | SCAN_3D \<Rightarrow> scan3DEnabled s
      | HEAD_TRACKING \<Rightarrow> faceEnabled s)"

section \<open>Basic facts\<close>

lemma length_vec_resize [simp]: "length (vec_resize n xs) = n"
  by (simp add: vec_resize_def)

lemma length_raw_write [simp]: "length (raw_write src buf) = length buf"
  by (simp add: raw_write_def)

lemma raw_write_Nil [simp]: "raw_write src [] = []"
  by (simp add: raw_write_def)

text \<open>What each stage of the loop leaves alone.\<close>

lemma stamp_frame_fields [simp]:
  "scanCompleted (stamp_frame s) = scanCompleted s"
  "reconstructEnabled (stamp_frame s) = reconstructEnabled s"
  "scan3DEnabled (stamp_frame s) = scan3DEnabled s"
  "p3DScan (stamp_frame s) = p3DScan s"
  "faceEnabled (stamp_frame s) = faceEnabled s"
  "pFace (stamp_frame s) = pFace s"
  "faceData (stamp_frame s) = faceData s"
  "reconstructCalls (stamp_frame s) = reconstructCalls s"
  "scan3DFileFormat (stamp_frame s) = scan3DFileFormat s"
  "scan3DFilename (stamp_frame s) = scan3DFilename s"
  "RealSenseFeatureSet (stamp_frame s) = RealSenseFeatureSet s"
  "colorStreamingEnabled (stamp_frame s) = colorStreamingEnabled s"
  "colorResolution (stamp_frame s) = colorResolution s"
  "midFrame (stamp_frame s) = midFrame s"
  "fgFrame (stamp_frame s) = fgFrame s"
  by (simp_all add: stamp_frame_def Let_def)

lemma stage_color_fields [simp]:
  "scanCompleted (stage_color inp s) = scanCompleted s"
  "reconstructEnabled (stage_color inp s) = reconstructEnabled s"
  "scan3DEnabled (stage_color inp s) = scan3DEnabled s"
  "p3DScan (stage_color inp s) = p3DScan s"
  "faceEnabled (stage_color inp s) = faceEnabled s"
  "pFace (stage_color inp s) = pFace s"
  "faceData (stage_color inp s) = faceData s"
  "reconstructCalls (stage_color inp s) = reconstructCalls s"
  "scan3DFileFormat (stage_color inp s) = scan3DFileFormat s"
  "scan3DFilename (stage_color inp s) = scan3DFilename s"
  "RealSenseFeatureSet (stage_color inp s) = RealSenseFeatureSet s"
  "midFrame (stage_color inp s) = midFrame s"
  "fgFrame (stage_color inp s) = fgFrame s"
  by (simp_all add: stage_color_def Let_def split: option.splits)

lemma stage_depth_fields [simp]:
  "scanCompleted (stage_depth inp s) = scanCompleted s"
  "reconstructEnabled (stage_depth inp s) = reconstructEnabled s"
  "scan3DEnabled (stage_depth inp s) = scan3DEnabled s"
  "p3DScan (stage_depth inp s) = p3DScan s"
  "faceEnabled (stage_depth inp s) = faceEnabled s"
  "pFace (stage_depth inp s) = pFace s"
  "faceData (stage_depth inp s) = faceData s"
  "reconstructCalls (stage_depth inp s) = reconstructCalls s"
  "scan3DFileFormat (stage_depth inp s) = scan3DFileFormat s"
  "scan3DFilename (stage_depth inp s) = scan3DFilename s"
  "RealSenseFeatureSet (stage_depth inp s) = RealSenseFeatureSet s"
  "colorImage (bgFrame (stage_depth inp s)) = colorImage (bgFrame s)"
  "midFrame (stage_depth inp s) = midFrame s"
  "fgFrame (stage_depth inp s) = fgFrame s"
  by (simp_all add: stage_depth_def split: option.splits)

lemma UpdateScan3DImageSize_fields [simp]:
  "scanCompleted (UpdateScan3DImageSize w h s) = scanCompleted s"
  "reconstructEnabled (UpdateScan3DImageSize w h s) = reconstructEnabled s"
  "faceEnabled (UpdateScan3DImageSize w h s) = faceEnabled s"
  "pFace (UpdateScan3DImageSize w h s) = pFace s"
  "faceData (UpdateScan3DImageSize w h s) = faceData s"
  "reconstructCalls (UpdateScan3DImageSize w h s) = reconstructCalls s"
  "scan3DFileFormat (UpdateScan3DImageSize w h s) = scan3DFileFormat s"
  "scan3DFilename (UpdateScan3DImageSize w h s) = scan3DFilename s"
  "RealSenseFeatureSet (UpdateScan3DImageSize w h s) = RealSenseFeatureSet s"
  "colorImage (bgFrame (UpdateScan3DImageSize w h s)) = colorImage (bgFrame s)"
  "number (fgFrame (UpdateScan3DImageSize w h s)) = number (fgFrame s)"
  by (simp_all add: UpdateScan3DImageSize_def Let_def)

lemma scan_start_fields [simp]:
  "scanCompleted (scan_start s) = scanCompleted s"
  "reconstructEnabled (scan_start s) = reconstructEnabled s"
  "faceEnabled (scan_start s) = faceEnabled s"
  "pFace (scan_start s) = pFace s"
  "faceData (scan_start s) = faceData s"
  "reconstructCalls (scan_start s) = reconstructCalls s"
  "scan3DFileFormat (scan_start s) = scan3DFileFormat s"
  "scan3DFilename (scan_start s) = scan3DFilename s"
  "RealSenseFeatureSet (scan_start s) = RealSenseFeatureSet s"
  "bgFrame (scan_start s) = bgFrame s"
  "fgFrame (scan_start s) = fgFrame s"
  by (simp_all add: scan_start_def)

lemma scan_stop_fields [simp]:
  "scanCompleted (scan_stop s) = scanCompleted s"
  "reconstructEnabled (scan_stop s) = reconstructEnabled s"
  "faceEnabled (scan_stop s) = faceEnabled s"
  "pFace (scan_stop s) = pFace s"
  "faceData (scan_stop s) = faceData s"
  "reconstructCalls (scan_stop s) = reconstructCalls s"
  "scan3DFileFormat (scan_stop s) = scan3DFileFormat s"
  "scan3DFilename (scan_stop s) = scan3DFilename s"
  "RealSenseFeatureSet (scan_stop s) = RealSenseFeatureSet s"
  "bgFrame (scan_stop s) = bgFrame s"
  "fgFrame (scan_stop s) = fgFrame s"
  by (simp_all add: scan_stop_def)

lemma scan_preview_fields [simp]:
  "scanCompleted (scan_preview inp s) = scanCompleted s"
  "reconstructEnabled (scan_preview inp s) = reconstructEnabled s"
  "faceEnabled (scan_preview inp s) = faceEnabled s"
  "pFace (scan_preview inp s) = pFace s"
  "faceData (scan_preview inp s) = faceData s"
  "reconstructCalls (scan_preview inp s) = reconstructCalls s"
  "scan3DFileFormat (scan_preview inp s) = scan3DFileFormat s"
  "scan3DFilename (scan_preview inp s) = scan3DFilename s"
  "RealSenseFeatureSet (scan_preview inp s) = RealSenseFeatureSet s"
  "colorImage (bgFrame (scan_preview inp s)) = colorImage (bgFrame s)"
  "number (fgFrame (scan_preview inp s)) = number (fgFrame s)"
  by (simp_all add: scan_preview_def Let_def split: option.splits prod.splits)

lemma scan_reconstruct_fields [simp]:
  "scanCompleted (scan_reconstruct inp s) = (scanCompleted s \<or> reconstructEnabled s)"
  "reconstructEnabled (scan_reconstruct inp s) = False"
  "faceEnabled (scan_reconstruct inp s) = faceEnabled s"
  "pFace (scan_reconstruct inp s) = pFace s"
  "faceData (scan_reconstruct inp s) = faceData s"
  "RealSenseFeatureSet (scan_reconstruct inp s) = RealSenseFeatureSet s"
  "bgFrame (scan_reconstruct inp s) = bgFrame s"
  "fgFrame (scan_reconstruct inp s) = fgFrame s"
  by (simp_all add: scan_reconstruct_def)

lemma stage_scan_Inr:
  assumes "stage_scan inp s = Inr s'"
  shows "scanCompleted s' = (scanCompleted s \<or> (scan3DEnabled s \<and> reconstructEnabled s))"
    and "reconstructEnabled s' = (reconstructEnabled s \<and> \<not> scan3DEnabled s)"
    and "faceEnabled s' = faceEnabled s" and "pFace s' = pFace s" and "faceData s' = faceData s"
    and "RealSenseFeatureSet s' = RealSenseFeatureSet s"
    and "colorImage (bgFrame s') = colorImage (bgFrame s)"
    and "number (fgFrame s') = number (fgFrame s)"
  using assms by (auto simp: stage_scan_def split: if_splits option.splits)

lemma stage_face_Inr:
  assumes "stage_face inp s = Inr s'"
  shows "scanCompleted s' = scanCompleted s"
    and "reconstructEnabled s' = reconstructEnabled s"
    and "reconstructCalls s' = reconstructCalls s"
    and "status s' = status s"
    and "RealSenseFeatureSet s' = RealSenseFeatureSet s"
    and "colorImage (bgFrame s') = colorImage (bgFrame s)"
    and "fgFrame s' = fgFrame s"
  using assms by (auto simp: stage_face_def Let_def split: if_splits option.splits prod.splits)

lemma process_Inr:
  assumes "CameraThread_process inp s = Inr s'"
  shows "scanCompleted s' = (scanCompleted s \<or> (scan3DEnabled s \<and> reconstructEnabled s))"
    and "reconstructEnabled s' = (reconstructEnabled s \<and> \<not> scan3DEnabled s)"
    and "RealSenseFeatureSet s' = RealSenseFeatureSet s"
    and "number (fgFrame s') = number (fgFrame s)"
proof -
  obtain s1 where a: "stage_scan inp (stage_depth inp (stage_color inp (stamp_frame s))) = Inr s1"
    and b: "stage_face inp s1 = Inr s'"
    using assms by (auto simp: CameraThread_process_def split: sum.splits)
  show "scanCompleted s' = (scanCompleted s \<or> (scan3DEnabled s \<and> reconstructEnabled s))"
    using stage_scan_Inr(1)[OF a] stage_face_Inr(1)[OF b] by simp
  show "reconstructEnabled s' = (reconstructEnabled s \<and> \<not> scan3DEnabled s)"
    using stage_scan_Inr(2)[OF a] stage_face_Inr(2)[OF b] by simp
  show "RealSenseFeatureSet s' = RealSenseFeatureSet s"
    using stage_scan_Inr(6)[OF a] stage_face_Inr(5)[OF b] by simp
  show "number (fgFrame s') = number (fgFrame s)"
    using stage_scan_Inr(8)[OF a] stage_face_Inr(7)[OF b] by simp
qed


lemma fill_Inr:
  assumes "CameraThread_fill inp s = Inr s'"
  shows "scanCompleted s' = (scanCompleted s \<or>
           (acquireStatus inp = PXC_STATUS_NO_ERROR \<and> scan3DEnabled s \<and> reconstructEnabled s))"
    and "RealSenseFeatureSet s' = RealSenseFeatureSet s"
    and "number (fgFrame s') = number (fgFrame s)"
proof -
  show "scanCompleted s' = (scanCompleted s \<or>
           (acquireStatus inp = PXC_STATUS_NO_ERROR \<and> scan3DEnabled s \<and> reconstructEnabled s))"
  proof (cases "acquireStatus inp = PXC_STATUS_NO_ERROR")
    case True
    then have "CameraThread_process inp (s\<lparr>status := acquireStatus inp\<rparr>) = Inr s'"
      using assms by (simp add: CameraThread_fill_def)
    from process_Inr(1)[OF this] True show ?thesis by simp
  next
    case False
    then show ?thesis using assms by (auto simp: CameraThread_fill_def)
  qed
  show "RealSenseFeatureSet s' = RealSenseFeatureSet s"
  proof (cases "acquireStatus inp = PXC_STATUS_NO_ERROR")
    case True
    then have "CameraThread_process inp (s\<lparr>status := acquireStatus inp\<rparr>) = Inr s'"
      using assms by (simp add: CameraThread_fill_def)
    from process_Inr(3)[OF this] show ?thesis by simp
  next
    case False
    then show ?thesis using assms by (auto simp: CameraThread_fill_def)
  qed
  show "number (fgFrame s') = number (fgFrame s)"
  proof (cases "acquireStatus inp = PXC_STATUS_NO_ERROR")
    case True
    then have "CameraThread_process inp (s\<lparr>status := acquireStatus inp\<rparr>) = Inr s'"
      using assms by (simp add: CameraThread_fill_def)
    from process_Inr(4)[OF this] show ?thesis by simp
  next
    case False
    then show ?thesis using assms by (auto simp: CameraThread_fill_def)
  qed
qed

lemma Enable_fields [simp]:
  "scanCompleted (EnableRealSenseFeature f s) = scanCompleted s"
  "fgFrame (EnableRealSenseFeature f s) = fgFrame s"
  "RealSenseFeatureSet (EnableRealSenseFeature f s) = RealSenseFeatureSet s OR feature_bit f"
  by (simp_all add: EnableRealSenseFeature_def Let_def)

lemma Enable_active [simp]: "feature_active f (EnableRealSenseFeature f s)"
  by (cases f) (simp_all add: EnableRealSenseFeature_def feature_active_def Let_def)

lemma Enable_keeps_active:
  "feature_active g s \<Longrightarrow> feature_active g (EnableRealSenseFeature f s)"
  by (cases g; cases f) (simp_all add: EnableRealSenseFeature_def feature_active_def Let_def)

lemma Enables_fields [simp]:
  "scanCompleted (EnableRealSenseFeatures fs s) = scanCompleted s"
  "fgFrame (EnableRealSenseFeatures fs s) = fgFrame s"
  by (simp_all add: EnableRealSenseFeatures_def Let_def)

lemma Enables_set:
  "RealSenseFeatureSet s AND RealSenseFeatureSet (EnableRealSenseFeatures fs s) = RealSenseFeatureSet s"
  by (simp add: EnableRealSenseFeatures_def Let_def word_ao_absorbs word_bw_assocs)

lemma Enables_active:
  "fs AND feature_bit f \<noteq> 0 \<Longrightarrow> feature_active f (EnableRealSenseFeatures fs s)"
  by (cases f) (simp_all add: EnableRealSenseFeatures_def Let_def Enable_keeps_active)

lemma Disable_Inr:
  assumes "DisableRealSenseFeature f s = Inr s'"
  shows "scanCompleted s' = scanCompleted s" and "fgFrame s' = fgFrame s"
    and "RealSenseFeatureSet s' = RealSenseFeatureSet s"
  using assms by (auto simp: DisableRealSenseFeature_def Let_def split: if_splits sum.splits)

lemma Disable_Inr_all:
  "DisableRealSenseFeature f s = Inr s' \<Longrightarrow>
     scanCompleted s' = scanCompleted s \<and> fgFrame s' = fgFrame s \<and>
     RealSenseFeatureSet s' = RealSenseFeatureSet s"
  by (simp add: Disable_Inr)

lemma Disables_Inr:
  assumes "DisableRealSenseFeatures fs s = Inr s'"
  shows "scanCompleted s' = scanCompleted s" and "fgFrame s' = fgFrame s"
    and "RealSenseFeatureSet s' = RealSenseFeatureSet s"
  using assms
  by (auto simp: DisableRealSenseFeatures_def dest!: Disable_Inr_all split: if_splits sum.splits)

lemma StopCamera_Inr:
  assumes "StopCamera s = Inr s'"
  shows "scanCompleted s' = scanCompleted s" and "fgFrame s' = fgFrame s"
    and "RealSenseFeatureSet s AND RealSenseFeatureSet s' = RealSenseFeatureSet s"
    and "RealSenseFeatureSet s AND feature_bit f \<noteq> 0 \<Longrightarrow> feature_active f s'"
proof -
  let ?s1 = "if cameraThreadRunning s then s\<lparr>cameraThreadRunning := False\<rparr> else s"
  have fs1: "RealSenseFeatureSet ?s1 = RealSenseFeatureSet s" by simp
  obtain s2 where d: "DisableRealSenseFeatures (RealSenseFeatureSet s) ?s1 = Inr s2"
    and e: "s' = EnableRealSenseFeatures (RealSenseFeatureSet s2) s2"
    using assms by (auto simp: StopCamera_def Let_def split: sum.splits if_splits)
  have fs2: "RealSenseFeatureSet s2 = RealSenseFeatureSet s"
    using Disables_Inr(3)[OF d] fs1 by simp
  show "scanCompleted s' = scanCompleted s"
    using Disables_Inr(1)[OF d] e by (simp split: if_splits)
  show "fgFrame s' = fgFrame s"
    using Disables_Inr(2)[OF d] e by (simp split: if_splits)
  show "RealSenseFeatureSet s AND RealSenseFeatureSet s' = RealSenseFeatureSet s"
    using Enables_set[of s2 "RealSenseFeatureSet s2"] e fs2 by simp
  show "feature_active f s'" if "RealSenseFeatureSet s AND feature_bit f \<noteq> 0"
    using Enables_active[of "RealSenseFeatureSet s2" f s2] that e fs2 by simp
qed


lemma exec_fg_number:
  assumes "exec e s = Inr s'" and "\<not> is_ThreadStart e"
  shows "number (fgFrame s) \<le> number (fgFrame s')"
proof (cases e)
  case (ThreadFill inp)
  with assms show ?thesis using fill_Inr(3)[of inp s s'] by (auto split: if_splits)
next
  case CallStopCamera
  with assms show ?thesis using StopCamera_Inr(2)[of s s'] by auto
next
  case CallSwapFrames
  with assms show ?thesis by (auto simp: SwapFrames_def split: if_splits)
next
  case (CallDisable f)
  with assms show ?thesis using Disable_Inr(2)[of f s s'] by auto
next
  case (CallDisableFeatures f)
  with assms show ?thesis using Disables_Inr(2)[of f s s'] by auto
qed (use assms in \<open>auto simp: PublishBackground_def StartCamera_def
      SetColorCameraResolution_def SetDepthCameraResolution_def ConfigureScanning_def
      SetScanningVolume_def StartScanning_def StopScanning_def ResetScanning_def SaveScan_def
      Let_def split: option.splits if_splits\<close>)

lemma exec_scanCompleted:
  assumes "exec e s = Inr s'" and "\<not> processes_reconstruct e s" and "\<not> scanCompleted s"
  shows "\<not> scanCompleted s'"
proof (cases e)
  case (ThreadFill inp)
  with assms show ?thesis using fill_Inr(1)[of inp s s'] by (auto split: if_splits)
next
  case CallStopCamera
  with assms show ?thesis using StopCamera_Inr(1)[of s s'] by auto
next
  case (CallDisable f)
  with assms show ?thesis using Disable_Inr(1)[of f s s'] by auto
next
  case (CallDisableFeatures f)
  with assms show ?thesis using Disables_Inr(1)[of f s s'] by auto
qed (use assms in \<open>auto simp: PublishBackground_def StartCamera_def SwapFrames_def
      CameraThread_start_def
      SetColorCameraResolution_def SetDepthCameraResolution_def ConfigureScanning_def
      SetScanningVolume_def StartScanning_def StopScanning_def ResetScanning_def SaveScan_def
      Let_def split: option.splits if_splits\<close>)

lemma exec_feature_set:
  assumes "exec e s = Inr s'"
  shows "RealSenseFeatureSet s AND RealSenseFeatureSet s' = RealSenseFeatureSet s"
proof (cases e)
  case (ThreadFill inp)
  with assms show ?thesis using fill_Inr(2)[of inp s s'] by (auto split: if_splits)
next
  case CallStopCamera
  with assms show ?thesis using StopCamera_Inr(3)[of s s'] by auto
next
  case (CallEnable f)
  with assms show ?thesis by (auto simp: word_ao_absorbs)
next
  case (CallEnableFeatures fs)
  with assms show ?thesis using Enables_set[of s fs] by auto
next
  case (CallDisable f)
  with assms show ?thesis using Disable_Inr(3)[of f s s'] by auto
next
  case (CallDisableFeatures f)
  with assms show ?thesis using Disables_Inr(3)[of f s s'] by auto
qed (use assms in \<open>auto simp: PublishBackground_def StartCamera_def SwapFrames_def
      CameraThread_start_def
      SetColorCameraResolution_def SetDepthCameraResolution_def ConfigureScanning_def
      SetScanningVolume_def StartScanning_def StopScanning_def ResetScanning_def SaveScan_def
      Let_def split: option.splits if_splits\<close>)

lemma word_and_mono_bit:
  fixes a b m :: "32 word"
  assumes "a AND b = a" and "a AND m = m"
  shows "b AND m = m"
proof -
  have "b AND m = b AND (a AND m)" using assms(2) by simp
  also have "\<dots> = (a AND b) AND m" by (simp add: and.assoc and.commute and.left_commute)
  also have "\<dots> = m" using assms by simp
  finally show ?thesis .
qed

lemma run_feature_set:
  "run evs s = Inr s' \<Longrightarrow> RealSenseFeatureSet s AND m = m \<Longrightarrow> RealSenseFeatureSet s' AND m = m"
proof (induction evs arbitrary: s)
  case Nil
  then show ?case by simp
next
  case (Cons e es)
  then obtain s1 where e: "exec e s = Inr s1" and r: "run es s1 = Inr s'"
    by (auto split: sum.splits)
  have "RealSenseFeatureSet s1 AND m = m"
    using word_and_mono_bit[OF exec_feature_set[OF e] Cons.prems(2)] .
  with Cons.IH[OF r] show ?case .
qed

lemma run_scanCompleted:
  "run evs s = Inr s' \<Longrightarrow> \<not> reconstruct_processed evs s \<Longrightarrow> \<not> scanCompleted s \<Longrightarrow>
   \<not> scanCompleted s'"
proof (induction evs arbitrary: s)
  case Nil
  then show ?case by simp
next
  case (Cons e es)
  then obtain s1 where e: "exec e s = Inr s1" and r: "run es s1 = Inr s'"
    by (auto split: sum.splits)
  have np: "\<not> processes_reconstruct e s" and nr: "\<not> reconstruct_processed es s1"
    using Cons.prems(2) e by simp_all
  have "\<not> scanCompleted s1" using exec_scanCompleted[OF e np Cons.prems(3)] .
  with Cons.IH[OF r nr] show ?case .
qed


text \<open>
  A pass of the loop that copies a color image publishes a frame whose color buffer has
  size zero: the buffer is cleared before the copy, and the copy goes through the raw
  pointer.
\<close>

lemma iteration_publishes_empty_color:
  assumes "colorStreamingEnabled s" and "sampleColor inp = Some img"
    and "acquireStatus inp = PXC_STATUS_NO_ERROR"
    and "CameraThread_iteration inp s = Inr s'"
  shows "colorImage (midFrame s') = []"
proof -
  let ?s0 = "s\<lparr>status := acquireStatus inp\<rparr>"
  obtain s1 where p: "CameraThread_process inp ?s0 = Inr s1" and e: "s' = PublishBackground s1"
    using assms(3,4) by (auto simp: CameraThread_iteration_def split: sum.splits)
  obtain s2 where a: "stage_scan inp (stage_depth inp (stage_color inp (stamp_frame ?s0))) = Inr s2"
    and b: "stage_face inp s2 = Inr s1"
    using p by (auto simp: CameraThread_process_def split: sum.splits)
  have "colorImage (bgFrame (stage_color inp (stamp_frame ?s0))) = []"
    using assms(1,2) by (simp add: stage_color_def CopyColorImageToBuffer_def vec_clear_def
        stamp_frame_def Let_def)
  then have "colorImage (bgFrame s1) = []"
    using stage_scan_Inr(7)[OF a] stage_face_Inr(6)[OF b] by simp
  then show ?thesis using e by (simp add: PublishBackground_def)
qed

text \<open>
  Enabling a feature a second time changes nothing more; neither does disabling camera
  streaming or scanning a second time.
\<close>

lemma Enable_idempotent:
  "EnableRealSenseFeature f (EnableRealSenseFeature f s) = EnableRealSenseFeature f s"
  by (cases f) (simp_all add: EnableRealSenseFeature_def Let_def or.assoc)

lemma Disable_idempotent:
  assumes "f \<noteq> HEAD_TRACKING" and "DisableRealSenseFeature f s = Inr s'"
  shows "DisableRealSenseFeature f s' = Inr s'"
  using assms by (cases f) (auto simp: DisableRealSenseFeature_def Let_def)

text \<open>The scan stage and the face stage return when their pointers are live.\<close>

lemma stage_face_ok:
  assumes "faceEnabled s \<and> pFace s \<noteq> Null \<longrightarrow> faceData s = Live"
  shows "\<exists>s'. stage_face inp s = Inr s'"
  using assms by (auto simp: stage_face_def deref_def Let_def split: option.splits prod.splits)

lemma stage_scan_reconstruct:
  assumes "scan3DEnabled s" and "reconstructEnabled s" and "p3DScan s = Live"
  shows "\<exists>s'. stage_scan inp s = Inr s' \<and>
           reconstructCalls s' = reconstructCalls s @ [(scan3DFileFormat s, scan3DFilename s)] \<and>
           status s' = reconstructStatus inp"
  using assms by (simp add: stage_scan_def deref_def scan_reconstruct_def)

section \<open>The triple buffer\<close>

text \<open>
  C1. \<open>SwapFrames\<close> exchanges the mid and the foreground frame exactly when the sequence
  number of the mid frame is strictly greater than that of the foreground frame, and
  otherwise changes nothing. Hence along every schedule of loop passes, publications and
  calls of the main thread (the start of the camera thread, which resets the numbers,
  apart) the sequence numbers read from the foreground frame never decrease.
\<close>

theorem forward_only_delivery:
  "(number (fgFrame s) < number (midFrame s) \<longrightarrow>
      fgFrame (SwapFrames s) = midFrame s \<and> midFrame (SwapFrames s) = fgFrame s) \<and>
   (\<not> number (fgFrame s) < number (midFrame s) \<longrightarrow> SwapFrames s = s) \<and>
   ((\<forall>e\<in>set evs. \<not> is_ThreadStart e) \<longrightarrow>
      sorted (number (fgFrame s) # fg_numbers evs s))"
proof -
  have "sorted (number (fgFrame s) # fg_numbers evs s)" if "\<forall>e\<in>set evs. \<not> is_ThreadStart e"
    using that
  proof (induction evs arbitrary: s)
    case Nil
    then show ?case by simp
  next
    case (Cons e es)
    show ?case
    proof (cases "exec e s")
      case (Inl f)
      then show ?thesis by simp
    next
      case (Inr s1)
      have le: "number (fgFrame s) \<le> number (fgFrame s1)"
        using exec_fg_number[OF Inr] Cons.prems by simp
      have srt: "sorted (number (fgFrame s1) # fg_numbers es s1)"
        using Cons.IH[of s1] Cons.prems by simp
      then have "\<forall>y\<in>set (number (fgFrame s1) # fg_numbers es s1). number (fgFrame s) \<le> y"
        using le by (auto intro: order_trans)
      with srt show ?thesis using Inr by simp
    qed
  qed
  then show ?thesis by (simp add: SwapFrames_def)
qed

theorem forward_only_delivery_witness:
  "fg_numbers [CallStartCamera,
       ThreadFill \<lparr>acquireStatus = 0, sampleColor = None, sampleDepth = None,
         previewImage = None, reconstructStatus = 0, detectedFaces = 0, poseData = None\<rparr>,
       ThreadPublish, CallSwapFrames,
       ThreadFill \<lparr>acquireStatus = 0, sampleColor = None, sampleDepth = None,
         previewImage = None, reconstructStatus = 0, detectedFaces = 0, poseData = None\<rparr>,
       ThreadPublish, CallSwapFrames] RealSenseImpl_new = [0, 0, 0, 1, 1, 1, 2] \<and>
   sorted (number (fgFrame RealSenseImpl_new) # [0, 0, 0, 1, 1, 1, 2])"
proof -
  let ?f = "\<lparr>acquireStatus = 0, sampleColor = None, sampleDepth = None,
         previewImage = None, reconstructStatus = 0, detectedFaces = 0, poseData = None\<rparr>"
  let ?evs = "[CallStartCamera, ThreadFill ?f, ThreadPublish, CallSwapFrames,
       ThreadFill ?f, ThreadPublish, CallSwapFrames]"
  have h: "\<forall>e\<in>set ?evs. \<not> is_ThreadStart e" by simp
  have v: "fg_numbers ?evs RealSenseImpl_new = [0, 0, 0, 1, 1, 1, 2]" by code_simp
  from forward_only_delivery[of RealSenseImpl_new ?evs] h v show ?thesis by simp
qed

section \<open>The color buffer of a published frame\<close>

text \<open>
  C2. The color resolution is set to 640 x 480 with success, which resizes the color
  buffer of every frame to 640 * 480 * 4 bytes; camera streaming is enabled and the
  camera thread started. The first pass of the loop over a frame with a color image then
  publishes, as frame number 1, a frame whose color buffer has size 0 and not
  640 * 480 * 4: line 157 clears the vector before line 158 copies through its raw
  pointer.
\<close>

theorem published_color_frame_is_empty:
  "(case run [CallSetColor \<lparr>width = 640, height = 480, fps = 0\<rparr> PXC_STATUS_NO_ERROR,
              CallEnable CAMERA_STREAMING, CallStartCamera, ThreadStart PXC_STATUS_NO_ERROR]
          RealSenseImpl_new of
      Inl f \<Rightarrow> False
    | Inr s \<Rightarrow>
        length (colorImage (bgFrame s)) = 640 * 480 * 4 \<and>
        (case CameraThread_iteration
                \<lparr>acquireStatus = PXC_STATUS_NO_ERROR,
                 sampleColor = Some (replicate (640 * 480 * 4) 255),
                 sampleDepth = None, previewImage = None, reconstructStatus = 0,
                 detectedFaces = 0, poseData = None\<rparr> s of
           Inl f \<Rightarrow> False
         | Inr s' \<Rightarrow> number (midFrame s') = 1 \<and> length (colorImage (midFrame s')) = 0))"
  by (simp add: RealSenseImpl_new_def new_RealSenseDataFrame_def zero_resolution_def
      SetColorCameraResolution_def EnableRealSenseFeature_def StartCamera_def
      CameraThread_start_def CameraThread_iteration_def CameraThread_process_def
      stamp_frame_def stage_color_def stage_depth_def stage_scan_def stage_face_def
      PublishBackground_def CopyColorImageToBuffer_def vec_clear_def
      PXC_STATUS_NO_ERROR_def Let_def)

section \<open>Enabling and disabling features\<close>

text \<open>
  C3. In the state the constructor leaves, the face configuration and the face output
  pointers are null, and \<open>DisableRealSenseFeature(HEAD_TRACKING)\<close> calls \<open>Release\<close>
  through the null face configuration pointer: the call faults.
\<close>

theorem disable_head_tracking_never_enabled_faults:
  "faceConfig RealSenseImpl_new = Null \<and> faceData RealSenseImpl_new = Null \<and>
   DisableRealSenseFeature HEAD_TRACKING RealSenseImpl_new = Inl NullDereference"
  by (simp add: RealSenseImpl_new_def DisableRealSenseFeature_def Release_def deref_def Let_def)

text \<open>
  C4. Head tracking is enabled, the camera thread is started (which creates the face
  output) and head tracking is disabled once, without a fault. A second
  \<open>DisableRealSenseFeature(HEAD_TRACKING)\<close> calls \<open>Release\<close> through the pointers that
  the first call released, so it does not yield the state of the first call.
\<close>

theorem disable_head_tracking_twice_faults:
  "(case run [CallEnable HEAD_TRACKING, CallStartCamera, ThreadStart PXC_STATUS_NO_ERROR,
              CallDisable HEAD_TRACKING] RealSenseImpl_new of
      Inl f \<Rightarrow> False
    | Inr s \<Rightarrow> DisableRealSenseFeature HEAD_TRACKING s = Inl UseAfterRelease)"
  by (simp add: RealSenseImpl_new_def EnableRealSenseFeature_def StartCamera_def
      CameraThread_start_def DisableRealSenseFeature_def Release_def deref_def
      PXC_STATUS_NO_ERROR_def Let_def)

text \<open>
  C10. \<open>EnableRealSenseFeature\<close> adds the bit of the feature to \<open>RealSenseFeatureSet\<close>,
  and \<open>DisableRealSenseFeature\<close> leaves the set as it is. Once a feature was enabled,
  its bit stays in the set along every schedule, whatever is disabled on the way; and when
  \<open>StopCamera\<close> then returns, its disable and enable cycle over that set has left the
  feature active and its bit set.
\<close>

theorem feature_set_only_accumulates:
  "RealSenseFeatureSet (EnableRealSenseFeature f s) = RealSenseFeatureSet s OR feature_bit f \<and>
   (DisableRealSenseFeature g t = Inr t1 \<longrightarrow> RealSenseFeatureSet t1 = RealSenseFeatureSet t) \<and>
   (run evs (EnableRealSenseFeature f s) = Inr s2 \<longrightarrow>
      RealSenseFeatureSet s2 AND feature_bit f = feature_bit f) \<and>
   (run evs (EnableRealSenseFeature f s) = Inr s2 \<longrightarrow> StopCamera s2 = Inr s3 \<longrightarrow>
      feature_active f s3 \<and> RealSenseFeatureSet s3 AND feature_bit f = feature_bit f)"
proof -
  have bit: "RealSenseFeatureSet (EnableRealSenseFeature f s) AND feature_bit f = feature_bit f"
    by (simp add: word_ao_absorbs and.commute)
  have kept: "RealSenseFeatureSet s2 AND feature_bit f = feature_bit f"
    if "run evs (EnableRealSenseFeature f s) = Inr s2"
    using run_feature_set[OF that bit] .
  have nz: "feature_bit f \<noteq> 0" by (cases f) simp_all
  have stop: "feature_active f s3 \<and> RealSenseFeatureSet s3 AND feature_bit f = feature_bit f"
    if r: "run evs (EnableRealSenseFeature f s) = Inr s2" and c: "StopCamera s2 = Inr s3"
  proof
    have "RealSenseFeatureSet s2 AND feature_bit f \<noteq> 0" using kept[OF r] nz by simp
    then show "feature_active f s3" using StopCamera_Inr(4)[OF c] by simp
    show "RealSenseFeatureSet s3 AND feature_bit f = feature_bit f"
      using word_and_mono_bit[OF StopCamera_Inr(3)[OF c] kept[OF r]] .
  qed
  show ?thesis using kept stop Disable_Inr(3)[of g t t1] by simp
qed

theorem feature_set_only_accumulates_witness:
  "\<exists>s1 s2 s3.
     DisableRealSenseFeature CAMERA_STREAMING (EnableRealSenseFeature CAMERA_STREAMING RealSenseImpl_new)
       = Inr s1 \<and>
     RealSenseFeatureSet s1 = 1 \<and> \<not> feature_active CAMERA_STREAMING s1 \<and>
     run [CallDisable CAMERA_STREAMING] (EnableRealSenseFeature CAMERA_STREAMING RealSenseImpl_new)
       = Inr s2 \<and>
     StopCamera s2 = Inr s3 \<and>
     feature_active CAMERA_STREAMING s3 \<and> RealSenseFeatureSet s3 AND 1 = 1"
proof -
  let ?s = "EnableRealSenseFeature CAMERA_STREAMING RealSenseImpl_new"
  let ?s1 = "?s\<lparr>colorStreamingEnabled := False, depthStreamingEnabled := False\<rparr>"
  have d: "DisableRealSenseFeature CAMERA_STREAMING ?s = Inr ?s1"
    by (simp add: DisableRealSenseFeature_def Let_def)
  have r: "run [CallDisable CAMERA_STREAMING] ?s = Inr ?s1"
    using d by simp
  have na: "\<not> feature_active CAMERA_STREAMING ?s1" by (simp add: feature_active_def)
  have "\<not> isl (StopCamera ?s1)" by code_simp
  then obtain s3 where c: "StopCamera ?s1 = Inr s3" by (cases "StopCamera ?s1") auto
  from feature_set_only_accumulates
    [of CAMERA_STREAMING RealSenseImpl_new CAMERA_STREAMING ?s ?s1 "[CallDisable CAMERA_STREAMING]"
        ?s1 s3]
    d r c
  have "RealSenseFeatureSet ?s1 = RealSenseFeatureSet ?s \<and> feature_active CAMERA_STREAMING s3 \<and>
        RealSenseFeatureSet s3 AND 1 = 1"
    by simp
  moreover have "RealSenseFeatureSet ?s = 1"
    by (simp add: RealSenseImpl_new_def)
  ultimately show ?thesis using d r c na by auto
qed

section \<open>The scan workflow\<close>

text \<open>
  C5. A pass of the loop that acquires a frame while scanning is enabled and
  \<open>reconstructEnabled\<close> is set returns, given live pointers, after it has called
  \<open>Reconstruct\<close> with the stored format and file name; it has then cleared
  \<open>reconstructEnabled\<close> and set \<open>scanCompleted\<close>, whatever status \<open>Reconstruct\<close>
  returned (the status is only stored).
\<close>

theorem reconstruct_completes_whatever_the_status:
  assumes "acquireStatus inp = PXC_STATUS_NO_ERROR"
    and "scan3DEnabled s" and "reconstructEnabled s" and "p3DScan s = Live"
    and "faceEnabled s \<and> pFace s \<noteq> Null \<longrightarrow> faceData s = Live"
  shows "\<exists>s'. CameraThread_iteration inp s = Inr s' \<and>
           reconstructCalls s' = reconstructCalls s @ [(scan3DFileFormat s, scan3DFilename s)] \<and>
           status s' = reconstructStatus inp \<and>
           \<not> reconstructEnabled s' \<and> scanCompleted s'"
proof -
  let ?s0 = "s\<lparr>status := acquireStatus inp\<rparr>"
  let ?s1 = "stage_depth inp (stage_color inp (stamp_frame ?s0))"
  have "scan3DEnabled ?s1" "reconstructEnabled ?s1" "p3DScan ?s1 = Live"
    using assms by simp_all
  from stage_scan_reconstruct[OF this, of inp]
  obtain s2 where a: "stage_scan inp ?s1 = Inr s2"
    and calls: "reconstructCalls s2 = reconstructCalls s @ [(scan3DFileFormat s, scan3DFilename s)]"
    and st: "status s2 = reconstructStatus inp"
    by auto
  have "faceEnabled s2 \<and> pFace s2 \<noteq> Null \<longrightarrow> faceData s2 = Live"
    using stage_scan_Inr(3,4,5)[OF a] assms(5) by simp
  from stage_face_ok[OF this, of inp] obtain s3 where b: "stage_face inp s2 = Inr s3"
    by auto
  have p: "CameraThread_process inp ?s0 = Inr s3"
    using a b by (simp add: CameraThread_process_def)
  have it: "CameraThread_iteration inp s = Inr (PublishBackground s3)"
    using assms(1) p by (simp add: CameraThread_iteration_def)
  have "scanCompleted s3" "\<not> reconstructEnabled s3"
    using process_Inr(1,2)[OF p] assms by simp_all
  moreover have "reconstructCalls s3 = reconstructCalls s @ [(scan3DFileFormat s, scan3DFilename s)]"
    using stage_face_Inr(3)[OF b] calls by simp
  moreover have "status s3 = reconstructStatus inp"
    using stage_face_Inr(4)[OF b] st by simp
  ultimately show ?thesis using it by (simp add: PublishBackground_def)
qed

theorem reconstruct_completes_whatever_the_status_witness:
  "\<exists>s'. CameraThread_iteration
           \<lparr>acquireStatus = 0, sampleColor = None, sampleDepth = None, previewImage = None,
            reconstructStatus = - 1, detectedFaces = 0, poseData = None\<rparr>
           (SaveScan OBJ ''x.obj'' (EnableRealSenseFeature SCAN_3D RealSenseImpl_new)) = Inr s' \<and>
         reconstructCalls s' = [(OBJ, ''x.obj'')] \<and> status s' = - 1 \<and>
         \<not> reconstructEnabled s' \<and> scanCompleted s'"
  using reconstruct_completes_whatever_the_status
    [of "\<lparr>acquireStatus = 0, sampleColor = None, sampleDepth = None, previewImage = None,
            reconstructStatus = - 1, detectedFaces = 0, poseData = None\<rparr>"
        "SaveScan OBJ ''x.obj'' (EnableRealSenseFeature SCAN_3D RealSenseImpl_new)"]
  by (simp add: SaveScan_def EnableRealSenseFeature_def RealSenseImpl_new_def
      PXC_STATUS_NO_ERROR_def Let_def)

text \<open>
  C9. \<open>StartScanning\<close> sets \<open>scanStarted\<close> and resets \<open>scanCompleted\<close>; and along
  every schedule after the call in which no pass of the loop processes a reconstruct
  request, \<open>scanCompleted\<close> stays false.
\<close>

theorem start_scanning_resets_scanCompleted:
  "scanStarted (StartScanning s) \<and> \<not> scanCompleted (StartScanning s) \<and>
   (run evs (StartScanning s) = Inr s' \<longrightarrow> \<not> reconstruct_processed evs (StartScanning s) \<longrightarrow>
      \<not> scanCompleted s')"
proof -
  have "\<not> scanCompleted (StartScanning s)" by (simp add: StartScanning_def)
  then have "\<not> scanCompleted s'"
    if "run evs (StartScanning s) = Inr s'" and "\<not> reconstruct_processed evs (StartScanning s)"
    using run_scanCompleted[OF that] by simp
  then show ?thesis by (simp add: StartScanning_def)
qed

theorem start_scanning_resets_scanCompleted_witness:
  "\<exists>s'. run [CallStartCamera, ThreadStart 0,
              ThreadFill \<lparr>acquireStatus = 0, sampleColor = None, sampleDepth = None,
                 previewImage = None, reconstructStatus = 0, detectedFaces = 0,
                 poseData = None\<rparr>,
              ThreadPublish, CallStopScanning, CallSwapFrames]
           (StartScanning ((EnableRealSenseFeature SCAN_3D RealSenseImpl_new)\<lparr>scanCompleted := True\<rparr>))
         = Inr s' \<and> \<not> scanStarted s' \<and> \<not> scanCompleted s'"
proof -
  let ?f = "\<lparr>acquireStatus = 0, sampleColor = None, sampleDepth = None,
                 previewImage = None, reconstructStatus = 0, detectedFaces = 0,
                 poseData = None\<rparr>"
  let ?evs = "[CallStartCamera, ThreadStart 0, ThreadFill ?f, ThreadPublish, CallStopScanning,
              CallSwapFrames]"
  let ?s = "(EnableRealSenseFeature SCAN_3D RealSenseImpl_new)\<lparr>scanCompleted := True\<rparr>"
  have r: "\<not> isl (run ?evs (StartScanning ?s))" by code_simp
  have st: "\<not> scanStarted (projr (run ?evs (StartScanning ?s)))" by code_simp
  have n: "\<not> reconstruct_processed ?evs (StartScanning ?s)" by code_simp
  from r obtain s' where e: "run ?evs (StartScanning ?s) = Inr s'"
    by (cases "run ?evs (StartScanning ?s)") auto
  from start_scanning_resets_scanCompleted[of ?s ?evs s'] e n have "\<not> scanCompleted s'"
    by blast
  with e st show ?thesis by auto
qed

section \<open>Setting the resolutions\<close>

text \<open>
  C6. When \<open>EnableStream\<close> fails, \<open>SetColorCameraResolution\<close> and
  \<open>SetDepthCameraResolution\<close> assign the recorded resolution and the status and nothing
  else: the three frames, and so their buffers, are exactly as they were. When it
  succeeds, the color buffers of the three frames have width * height * 4 elements and
  the depth buffers width * height.
\<close>

theorem resize_only_on_success:
  "(st \<noteq> PXC_STATUS_NO_ERROR \<longrightarrow>
      SetColorCameraResolution res st s = s\<lparr>colorResolution := res, status := st\<rparr> \<and>
      SetDepthCameraResolution res st s = s\<lparr>depthResolution := res, status := st\<rparr> \<and>
      bgFrame (SetColorCameraResolution res st s) = bgFrame s \<and>
      midFrame (SetColorCameraResolution res st s) = midFrame s \<and>
      fgFrame (SetColorCameraResolution res st s) = fgFrame s \<and>
      bgFrame (SetDepthCameraResolution res st s) = bgFrame s \<and>
      midFrame (SetDepthCameraResolution res st s) = midFrame s \<and>
      fgFrame (SetDepthCameraResolution res st s) = fgFrame s) \<and>
   (st = PXC_STATUS_NO_ERROR \<longrightarrow>
      length (colorImage (bgFrame (SetColorCameraResolution res st s))) = width res * height res * 4 \<and>
      length (colorImage (midFrame (SetColorCameraResolution res st s))) = width res * height res * 4 \<and>
      length (colorImage (fgFrame (SetColorCameraResolution res st s))) = width res * height res * 4 \<and>
      length (depthImage (bgFrame (SetDepthCameraResolution res st s))) = width res * height res \<and>
      length (depthImage (midFrame (SetDepthCameraResolution res st s))) = width res * height res \<and>
      length (depthImage (fgFrame (SetDepthCameraResolution res st s))) = width res * height res)"
  by (simp add: SetColorCameraResolution_def SetDepthCameraResolution_def Let_def)

theorem resize_only_on_success_witness:
  "bgFrame (SetColorCameraResolution \<lparr>width = 1920, height = 1080, fps = 0\<rparr> (- 1)
      (SetColorCameraResolution \<lparr>width = 640, height = 480, fps = 0\<rparr> 0 RealSenseImpl_new)) =
   bgFrame (SetColorCameraResolution \<lparr>width = 640, height = 480, fps = 0\<rparr> 0 RealSenseImpl_new) \<and>
   length (colorImage (fgFrame (SetColorCameraResolution \<lparr>width = 1920, height = 1080, fps = 0\<rparr> (- 1)
      (SetColorCameraResolution \<lparr>width = 640, height = 480, fps = 0\<rparr> 0 RealSenseImpl_new)))) = 1228800 \<and>
   length (depthImage (midFrame (SetDepthCameraResolution \<lparr>width = 640, height = 480, fps = 0\<rparr> 0
      RealSenseImpl_new))) = 307200"
  using resize_only_on_success[of "- 1" "\<lparr>width = 1920, height = 1080, fps = 0\<rparr>"
      "SetColorCameraResolution \<lparr>width = 640, height = 480, fps = 0\<rparr> 0 RealSenseImpl_new"]
    resize_only_on_success[of 0 "\<lparr>width = 640, height = 480, fps = 0\<rparr>" RealSenseImpl_new]
  by (simp add: PXC_STATUS_NO_ERROR_def)

section \<open>Loading a file that cannot be opened\<close>

text \<open>
  C8. When the file cannot be opened, \<open>LoadScan\<close> returns with the three arrays empty,
  and it has no other result through which an error could be signalled. The arrays are
  emptied before anything is read: what they held at the call never shows in the result.
\<close>

theorem load_scan_missing_file:
  "(files filename = None \<longrightarrow> LoadScan ar files filename out = ([], [], [])) \<and>
   LoadScan ar files filename out = LoadScan ar files filename ([], [], [])"
  by (cases out) (simp add: LoadScan_def vec_clear_def Let_def)

theorem load_scan_missing_file_witness:
  "LoadScan
     \<lparr>sscanf_floats = (\<lambda>l. []), sscanf_ints = (\<lambda>l. []),
      make_vertex = (\<lambda>x y z. (x, y, z)), make_color = (\<lambda>r g b. (0, 0, 0)),
      vec_add = (\<lambda>a b. a), vec_div = (\<lambda>a n. a), vec_sub = (\<lambda>a b. a),
      uninit_float = (\<lambda>i. 0), uninit_int = (\<lambda>i. 0)\<rparr>
     Map.empty ''missing.obj'' ([(1, 2, 3)], [0, 1, 2], [(255, 0, 0)]) = ([], [], [])"
  using load_scan_missing_file[of Map.empty "''missing.obj''"
     "\<lparr>sscanf_floats = (\<lambda>l. []), sscanf_ints = (\<lambda>l. []),
      make_vertex = (\<lambda>x y z. (x, y, z)), make_color = (\<lambda>r g b. (0, 0, 0)),
      vec_add = (\<lambda>a b. a), vec_div = (\<lambda>a n. a), vec_sub = (\<lambda>a b. a),
      uninit_float = (\<lambda>i. 0), uninit_int = (\<lambda>i. 0)\<rparr>"
     "([(1, 2, 3)], [0, 1, 2], [(255, 0, 0)])"]
  by simp

end
